theory Spec2Isabelle
  imports Complex_Main
begin

section \<open>Values exchanged with the providers\<close>

text \<open>
  \<open>response.json()\<close> yields an arbitrary decoded JSON document. Python's \<open>None\<close> is
  \<open>JNull\<close>, a \<open>dict\<close> is the list of its items (keys are distinct after decoding), and
  numbers are exact reals: rounding of IEEE doubles is not part of this development.
\<close>

datatype json =
    JNull
  | JBool bool
  | JNum real
  | JStr string
  | JArr "json list"
  | JObj "(string \<times> json) list"

text \<open>
  The exceptions the program can meet. All of them are instances of Python's
  \<open>Exception\<close>; \<open>HTTPError\<close> is \<open>requests.exceptions.HTTPError\<close>, the only class that
  \<open>main.py\<close> singles out next to \<open>KeyError\<close>.
\<close>

datatype exn =
    HTTPError string
  | ConnectionError string
  | JSONDecodeError string
  | KeyError string
  | TypeError string
  | ValueError string

text \<open>The pieces of a formatted string (an f-string keeps its holes apart).\<close>

datatype piece = Lit string | Num real | Exc exn

record response =
  status_code :: nat
  reason :: string
  body :: "json option"

text \<open>
  The network is the environment of a run: what a GET or a POST to a URL answers, or the
  exception \<open>requests\<close> raises instead of answering.
\<close>

record net =
  http_get :: "string \<Rightarrow> (string \<times> string) list \<Rightarrow> exn + response"
  http_post :: "string \<Rightarrow> (string \<times> piece list) list \<Rightarrow> exn + response"

record model =
  coef :: real
  intercept :: real

text \<open>
  What a run does to the outside world, in order. \<open>Enter f\<close> marks that control entered
  the function \<open>f\<close> of \<open>main.py\<close>, and \<open>Query m x\<close> that \<open>m.predict\<close> was asked for
  position \<open>x\<close>; both are observation points, the way a test double records calls.
  \<open>Http_get\<close> and \<open>Http_post\<close> are the requests handed to \<open>requests\<close>, \<open>Print\<close> a line on
  standard output.
\<close>

datatype event =
    Enter string
  | Query model real
  | Print "piece list"
  | Http_get string "(string \<times> string) list"
  | Http_post string "(string \<times> piece list) list"

definition API_ENDPOINT :: string where
  "API_ENDPOINT = ''https://api.mockclimate.com/v1/getdata''"

definition NOTIFICATION_ENDPOINT :: string where
  "NOTIFICATION_ENDPOINT = ''https://api.mocknotifications.com/send''"

definition py_print :: "piece list \<Rightarrow> event list \<Rightarrow> event list" where
  "py_print msg t = t @ [Print msg]"

section \<open>Library operations\<close>

text \<open>\<open>Response.raise_for_status\<close>: client errors (4xx) and server errors (5xx) raise.\<close>

definition raise_for_status :: "response \<Rightarrow> exn + unit" where
  "raise_for_status r =
     (if 400 \<le> status_code r \<and> status_code r < 600 then Inl (HTTPError (reason r))
      else Inr ())"

text \<open>\<open>Response.json\<close>: a body that is not JSON raises.\<close>

definition response_json :: "response \<Rightarrow> exn + json" where
  "response_json r =
     (case body r of
        None \<Rightarrow> Inl (JSONDecodeError ''Expecting value'')
      | Some v \<Rightarrow> Inr v)"

text \<open>A request fails for the program when \<open>requests\<close> raises instead of answering, or
  when the answer has a status that \<open>raise_for_status\<close> rejects.\<close>

definition request_fails :: "exn + response \<Rightarrow> bool" where
  "request_fails answer =
     (case answer of
        Inl e \<Rightarrow> True
      | Inr r \<Rightarrow> 400 \<le> status_code r \<and> status_code r < 600)"

text \<open>Truth value of an object in \<open>if raw_data:\<close>.\<close>

fun truthy :: "json \<Rightarrow> bool" where
  "truthy JNull = False"
| "truthy (JBool b) = b"
| "truthy (JNum r) = (r \<noteq> 0)"
| "truthy (JStr s) = (s \<noteq> [])"
| "truthy (JArr xs) = (xs \<noteq> [])"
| "truthy (JObj kvs) = (kvs \<noteq> [])"

text \<open>\<open>for entry in raw_data\<close>: a list gives its elements, a dict its keys, a string its
  characters; nothing else is iterable.\<close>

fun iter :: "json \<Rightarrow> exn + json list" where
  "iter (JArr xs) = Inr xs"
| "iter (JObj kvs) = Inr (map (\<lambda>kv. JStr (fst kv)) kvs)"
| "iter (JStr s) = Inr (map (\<lambda>c. JStr [c]) s)"
| "iter JNull = Inl (TypeError ''NoneType object is not iterable'')"
| "iter (JBool b) = Inl (TypeError ''bool object is not iterable'')"
| "iter (JNum r) = Inl (TypeError ''number object is not iterable'')"

text \<open>\<open>entry[key]\<close> with a string key: only a dict can answer, and only for a key it has.\<close>

fun getitem :: "json \<Rightarrow> string \<Rightarrow> exn + json" where
  "getitem (JObj kvs) k =
     (case map_of kvs k of None \<Rightarrow> Inl (KeyError k) | Some v \<Rightarrow> Inr v)"
| "getitem (JArr xs) k = Inl (TypeError ''list indices must be integers or slices, not str'')"
| "getitem (JStr s) k = Inl (TypeError ''string indices must be integers, not str'')"
| "getitem JNull k = Inl (TypeError ''NoneType object is not subscriptable'')"
| "getitem (JBool b) k = Inl (TypeError ''bool object is not subscriptable'')"
| "getitem (JNum r) k = Inl (TypeError ''number object is not subscriptable'')"

text \<open>
  \<open>np.array\<close> of a Python list. NumPy (1.24 and later) packs a list whose nesting is
  regular, every element a scalar or every element a list of one and the same shape, and
  raises \<open>ValueError\<close> for any other list. Strings, numbers, booleans, \<open>None\<close> and dicts
  are scalars to it. \<open>np_shape\<close> is the shape NumPy finds, if there is one. The array is
  represented by its elements along the first axis, so \<open>len\<close> of it is their number.
\<close>

fun np_shape :: "json \<Rightarrow> nat list option" where
  "np_shape (JArr []) = Some [0]"
| "np_shape (JArr (x # rest)) =
     (case np_shape x of
        None \<Rightarrow> None
      | Some s \<Rightarrow>
          if list_all (\<lambda>y. np_shape y = Some s) rest then Some (Suc (length rest) # s)
          else None)"
| "np_shape v = Some []"

definition np_array :: "json list \<Rightarrow> exn + json list" where
  "np_array xs =
     (case np_shape (JArr xs) of
        None \<Rightarrow> Inl (ValueError ''The requested array has an inhomogeneous shape'')
      | Some s \<Rightarrow> Inr xs)"

text \<open>\<open>np.arange(n)\<close>, the positions \<open>0, \<dots>, n - 1\<close>.\<close>

definition arange :: "nat \<Rightarrow> real list" where
  "arange n = map real [0..<n]"

text \<open>
  The numeric target vector the estimator reads out of the risk values. The contract of
  the fit is a sequence of numbers; a target with any other value is taken to be refused
  by the estimator.
\<close>

fun as_floats :: "json list \<Rightarrow> exn + real list" where
  "as_floats [] = Inr []"
| "as_floats (JNum r # vs) =
     (case as_floats vs of Inl e \<Rightarrow> Inl e | Inr rs \<Rightarrow> Inr (r # rs))"
| "as_floats (v # vs) = Inl (ValueError ''could not convert value to float'')"

definition mean :: "real list \<Rightarrow> real" where
  "mean xs = sum_list xs / real (length xs)"

text \<open>
  Modelled from the spec: \<open>sklearn.linear_model.LinearRegression\<close> is not part of the
  repository. Section 4.3 of the specification fixes it as ordinary least-squares
  regression of the risk values on the positions, with one explanatory variable, giving a
  slope and an intercept, and predicting \<open>slope * position + intercept\<close>. The closed form
  is used: the data are centred, the slope is the ratio of the centred cross product to
  the centred square sum (0 when all positions coincide, the minimum-norm solution), and
  the intercept makes the line pass through the means. An empty sample and a target of
  another length than the positions are rejected.
\<close>

definition fit :: "real list \<Rightarrow> real list \<Rightarrow> exn + model" where
  "fit X y =
     (if X = [] then Inl (ValueError ''Found array with 0 sample(s)'')
      else if length X \<noteq> length y
        then Inl (ValueError ''Found input variables with inconsistent numbers of samples'')
      else
        (let x_mean = mean X;
             y_mean = mean y;
             sxx = sum_list (map (\<lambda>x. (x - x_mean) * (x - x_mean)) X);
             sxy = sum_list (map (\<lambda>(x, v). (x - x_mean) * (v - y_mean)) (zip X y));
             slope = (if sxx = 0 then 0 else sxy / sxx)
         in Inr \<lparr>coef = slope, intercept = y_mean - slope * x_mean\<rparr>))"

definition predict :: "model \<Rightarrow> real \<Rightarrow> real" where
  "predict m x = coef m * x + intercept m"

section \<open>The stages of \<open>main.py\<close>\<close>

subsection \<open>\<open>fetch_climate_data\<close>\<close>

text \<open>The \<open>try\<close> block: one GET, the status check, the decoding of the body.\<close>

definition fetch_try :: "net \<Rightarrow> string \<Rightarrow> event list \<Rightarrow> (exn + json) \<times> event list" where
  "fetch_try nw location t =
     (let params = [(''location'', location)];
          t1 = t @ [Http_get API_ENDPOINT params]
      in case http_get nw API_ENDPOINT params of
           Inl e \<Rightarrow> (Inl e, t1)
         | Inr response \<Rightarrow>
             (case raise_for_status response of
                Inl e \<Rightarrow> (Inl e, t1)
              | Inr _ \<Rightarrow>
                  (case response_json response of
                     Inl e \<Rightarrow> (Inl e, t1)
                   | Inr data \<Rightarrow> (Inr data, t1))))"

text \<open>The handlers: an \<open>HTTPError\<close> and every other exception are printed, and the
  function falls through to \<open>return None\<close>.\<close>

definition fetch_climate_data ::
  "net \<Rightarrow> string \<Rightarrow> event list \<Rightarrow> (exn + json) \<times> event list" where
  "fetch_climate_data nw location t =
     (case fetch_try nw location (t @ [Enter ''fetch_climate_data'']) of
        (Inr data, t1) \<Rightarrow> (Inr data, t1)
      | (Inl (HTTPError msg), t1) \<Rightarrow>
          (Inr JNull, py_print [Lit ''HTTP error occurred: '', Exc (HTTPError msg)] t1)
      | (Inl err, t1) \<Rightarrow>
          (Inr JNull, py_print [Lit ''Other error occurred: '', Exc err] t1))"

subsection \<open>\<open>process_data\<close>\<close>

text \<open>The loop body appends to both lists; the first failing subscript ends the loop.\<close>

fun collect :: "json list \<Rightarrow> json list \<Rightarrow> json list \<Rightarrow> exn + (json list \<times> json list)" where
  "collect [] dates risk_factors = Inr (dates, risk_factors)"
| "collect (entry # rest) dates risk_factors =
     (case getitem entry ''date'' of
        Inl e \<Rightarrow> Inl e
      | Inr d \<Rightarrow>
          (case getitem entry ''risk_factor'' of
             Inl e \<Rightarrow> Inl e
           | Inr r \<Rightarrow> collect rest (dates @ [d]) (risk_factors @ [r])))"

definition process_try :: "json \<Rightarrow> exn + (json list \<times> json list)" where
  "process_try raw_data =
     (case iter raw_data of
        Inl e \<Rightarrow> Inl e
      | Inr entries \<Rightarrow>
          (case collect entries [] [] of
             Inl e \<Rightarrow> Inl e
           | Inr (dates, risk_factors) \<Rightarrow>
               (case np_array dates of
                  Inl e \<Rightarrow> Inl e
                | Inr da \<Rightarrow>
                    (case np_array risk_factors of
                       Inl e \<Rightarrow> Inl e
                     | Inr ra \<Rightarrow> Inr (da, ra)))))"

definition process_data ::
  "json \<Rightarrow> event list \<Rightarrow> (exn + (json list option \<times> json list option)) \<times> event list" where
  "process_data raw_data t =
     (let t1 = t @ [Enter ''process_data'']
      in case process_try raw_data of
           Inr (da, ra) \<Rightarrow> (Inr (Some da, Some ra), t1)
         | Inl (KeyError k) \<Rightarrow>
             (Inr (None, None),
              py_print [Lit ''Missing expected data field: '', Exc (KeyError k)] t1)
         | Inl err \<Rightarrow>
             (Inr (None, None), py_print [Lit ''Error processing data: '', Exc err] t1))"

subsection \<open>\<open>train_model\<close>\<close>

definition train_try :: "json list \<Rightarrow> json list \<Rightarrow> exn + model" where
  "train_try dates risk_factors =
     (let X = arange (length dates)
      in case as_floats risk_factors of
           Inl e \<Rightarrow> Inl e
         | Inr y \<Rightarrow> fit X y)"

definition train_model ::
  "json list \<Rightarrow> json list \<Rightarrow> event list \<Rightarrow> (exn + model option) \<times> event list" where
  "train_model dates risk_factors t =
     (let t1 = t @ [Enter ''train_model'']
      in case train_try dates risk_factors of
           Inr m \<Rightarrow> (Inr (Some m), t1)
         | Inl err \<Rightarrow>
             (Inr None, py_print [Lit ''Error during model training: '', Exc err] t1))"

subsection \<open>\<open>send_notification\<close>\<close>

definition alert :: "string \<Rightarrow> real \<Rightarrow> piece list" where
  "alert location forecast =
     [Lit ''Climate alert for '', Lit location, Lit '': Forecasted risk is '', Num forecast]"

definition send_try :: "net \<Rightarrow> string \<Rightarrow> real \<Rightarrow> event list \<Rightarrow> (exn + unit) \<times> event list" where
  "send_try nw location forecast t =
     (let message = alert location forecast;
          payload = [(''message'', message)];
          t1 = t @ [Http_post NOTIFICATION_ENDPOINT payload]
      in case http_post nw NOTIFICATION_ENDPOINT payload of
           Inl e \<Rightarrow> (Inl e, t1)
         | Inr response \<Rightarrow>
             (case raise_for_status response of
                Inl e \<Rightarrow> (Inl e, t1)
              | Inr _ \<Rightarrow> (Inr (), py_print [Lit ''Notification sent successfully!''] t1)))"

definition send_notification ::
  "net \<Rightarrow> string \<Rightarrow> real \<Rightarrow> event list \<Rightarrow> (exn + unit) \<times> event list" where
  "send_notification nw location forecast t =
     (case send_try nw location forecast (t @ [Enter ''send_notification'']) of
        (Inr u, t1) \<Rightarrow> (Inr (), t1)
      | (Inl (HTTPError msg), t1) \<Rightarrow>
          (Inr (), py_print [Lit ''HTTP error during notification: '', Exc (HTTPError msg)] t1)
      | (Inl err, t1) \<Rightarrow>
          (Inr (), py_print [Lit ''Other error occurred during notification: '', Exc err] t1))"

subsection \<open>\<open>main\<close>\<close>

text \<open>
  \<open>main\<close> has no handler of its own: an exception leaving a stage would leave \<open>main\<close>,
  and the interpreter would end the process with status 1.
\<close>

definition main :: "net \<Rightarrow> event list \<Rightarrow> (exn + unit) \<times> event list" where
  "main nw t0 =
     (let location = ''New York'';
          t1 = py_print [Lit ''Fetching climate data for '', Lit location, Lit ''...''] t0
      in case fetch_climate_data nw location t1 of
           (Inl e, t2) \<Rightarrow> (Inl e, t2)
         | (Inr raw_data, t2) \<Rightarrow>
             if truthy raw_data then
               (case process_data raw_data (py_print [Lit ''Processing data...''] t2) of
                  (Inl e, t3) \<Rightarrow> (Inl e, t3)
                | (Inr (Some dates, Some risk_factors), t3) \<Rightarrow>
                    (case train_model dates risk_factors
                            (py_print [Lit ''Training model...''] t3) of
                       (Inl e, t4) \<Rightarrow> (Inl e, t4)
                     | (Inr (Some m), t4) \<Rightarrow>
                         (let next_date = real (length dates);
                              forecast = predict m next_date;
                              t5 = t4 @ [Query m next_date];
                              t6 = py_print
                                     [Lit ''Forecasted risk for next date: '', Num forecast] t5;
                              t7 = py_print [Lit ''Sending notification...''] t6
                          in send_notification nw location forecast t7)
                     | (Inr None, t4) \<Rightarrow>
                         (Inr (), py_print [Lit ''Model training failed.''] t4))
                | (Inr _, t3) \<Rightarrow>
                    (Inr (), py_print [Lit ''Data processing failed.''] t3))
             else (Inr (), py_print [Lit ''Failed to fetch climate data.''] t2))"


section \<open>Observations on a trace\<close>

fun is_post :: "event \<Rightarrow> bool" where
  "is_post (Http_post url payload) = True"
| "is_post e = False"

fun is_get :: "event \<Rightarrow> bool" where
  "is_get (Http_get url params) = True"
| "is_get e = False"


fun is_print :: "event \<Rightarrow> bool" where
  "is_print (Print msg) = True"
| "is_print e = False"

section \<open>Observations on records\<close>




text \<open>The events every run of \<open>main\<close> starts with: the announcement, the entry into
  \<open>fetch_climate_data\<close> and its single GET for the hardcoded location.\<close>

definition prologue :: "event list" where
  "prologue =
     [Print [Lit ''Fetching climate data for '', Lit ''New York'', Lit ''...''],
      Enter ''fetch_climate_data'',
      Http_get API_ENDPOINT [(''location'', ''New York'')]]"

section \<open>Concrete inputs\<close>

text \<open>The provider response of property P1 of the specification.\<close>

definition p1_records :: "json list" where
  "p1_records =
     [JObj [(''date'', JStr ''2024-01-01''), (''risk_factor'', JNum 1)],
      JObj [(''date'', JStr ''2024-01-02''), (''risk_factor'', JNum 2)],
      JObj [(''date'', JStr ''2024-01-03''), (''risk_factor'', JNum 3)]]"

definition p1_response :: json where
  "p1_response = JArr p1_records"


definition p1_dates :: "json list" where
  "p1_dates = [JStr ''2024-01-01'', JStr ''2024-01-02'', JStr ''2024-01-03'']"

text \<open>Two records that carry both fields, with arrays of unequal lengths as dates.\<close>

definition ragged_records :: "json list" where
  "ragged_records =
     [JObj [(''date'', JArr [JNum 2024, JNum 1]), (''risk_factor'', JNum 1)],
      JObj [(''date'', JArr [JNum 2024, JNum 1, JNum 2]), (''risk_factor'', JNum 2)]]"

text \<open>A network whose data provider always answers \<open>g\<close> and whose notification
  provider always answers \<open>p\<close>, and the plain 200 response carrying a document.\<close>

definition answering :: "exn + response \<Rightarrow> exn + response \<Rightarrow> net" where
  "answering g p = \<lparr>http_get = (\<lambda>url params. g), http_post = (\<lambda>url payload. p)\<rparr>"

definition ok :: "json \<Rightarrow> response" where
  "ok v = \<lparr>status_code = 200, reason = ''OK'', body = Some v\<rparr>"

text \<open>A 300 response carrying a document: not a 2xx status, and not an error for
  \<open>raise_for_status\<close>; \<open>requests\<close> follows no redirect without a \<open>Location\<close> header.\<close>

definition multiple_choices :: "json \<Rightarrow> response" where
  "multiple_choices v = \<lparr>status_code = 300, reason = ''Multiple Choices'', body = Some v\<rparr>"

section \<open>The stages, one outcome at a time\<close>

lemma fetch_climate_data_ok:
  assumes "http_get nw API_ENDPOINT [(''location'', location)] = Inr r"
    and "raise_for_status r = Inr ()"
    and "body r = Some v"
  shows "fetch_climate_data nw location t =
    (Inr v, t @ [Enter ''fetch_climate_data'', Http_get API_ENDPOINT [(''location'', location)]])"
  using assms by (simp add: fetch_climate_data_def fetch_try_def response_json_def)

lemma fetch_climate_data_status:
  assumes "http_get nw API_ENDPOINT [(''location'', location)] = Inr r"
    and "400 \<le> status_code r" and "status_code r < 600"
  shows "fetch_climate_data nw location t =
    (Inr JNull, t @ [Enter ''fetch_climate_data'',
       Http_get API_ENDPOINT [(''location'', location)],
       Print [Lit ''HTTP error occurred: '', Exc (HTTPError (reason r))]])"
  using assms
  by (simp add: fetch_climate_data_def fetch_try_def py_print_def raise_for_status_def)

lemma fetch_climate_data_shape:
  "\<exists>raw diag. fetch_climate_data nw location t =
      (Inr raw, t @ [Enter ''fetch_climate_data'',
         Http_get API_ENDPOINT [(''location'', location)]] @ diag)
    \<and> list_all is_print diag"
  by (auto simp add: fetch_climate_data_def fetch_try_def py_print_def Let_def
      split: sum.splits exn.splits)

lemma process_data_Inr:
  "process_try raw = Inr (d, r) \<Longrightarrow>
     process_data raw t = (Inr (Some d, Some r), t @ [Enter ''process_data''])"
  by (simp add: process_data_def)

lemma process_data_Inl:
  "process_try raw = Inl e \<Longrightarrow>
     \<exists>line. process_data raw t = (Inr (None, None), t @ [Enter ''process_data'', Print line])"
  by (cases e) (simp_all add: process_data_def py_print_def)

lemma train_model_Inr:
  "train_try d r = Inr m \<Longrightarrow> train_model d r t = (Inr (Some m), t @ [Enter ''train_model''])"
  by (simp add: train_model_def)

lemma train_model_Inl:
  "train_try d r = Inl e \<Longrightarrow>
     train_model d r t = (Inr None, t @ [Enter ''train_model'',
        Print [Lit ''Error during model training: '', Exc e]])"
  by (simp add: train_model_def py_print_def)

lemma send_notification_shape:
  "\<exists>line. send_notification nw location forecast t =
     (Inr (), t @ [Enter ''send_notification'',
        Http_post NOTIFICATION_ENDPOINT [(''message'', alert location forecast)], Print line])"
  by (auto simp add: send_notification_def send_try_def py_print_def Let_def
      split: sum.splits exn.splits)

subsection \<open>The extraction loop\<close>

lemma collect_lengths:
  "collect es ds rs = Inr (d, r) \<Longrightarrow>
     length d = length ds + length es \<and> length r = length rs + length es"
proof (induction es arbitrary: ds rs)
  case Nil
  then show ?case by simp
next
  case (Cons e es)
  then show ?case by (auto split: sum.splits)
qed


lemma collect_missing:
  "e \<in> set es \<Longrightarrow> getitem e ''risk_factor'' = Inl x \<Longrightarrow> \<exists>err. collect es ds rs = Inl err"
proof (induction es arbitrary: ds rs)
  case Nil
  then show ?case by simp
next
  case (Cons a es)
  then show ?case by (auto split: sum.splits)
qed

subsection \<open>Packing\<close>

lemma np_array_Inr: "np_array xs = Inr ys \<Longrightarrow> ys = xs"
  by (simp add: np_array_def split: option.splits)




lemma process_try_iter:
  "process_try raw = Inr (d, r) \<Longrightarrow> \<exists>es. collect es [] [] = Inr (d, r)"
  by (auto simp add: process_try_def dest!: np_array_Inr split: sum.splits)


subsection \<open>The four ways a run of \<open>main\<close> can go\<close>

lemma main_cases [case_names fetch_failed process_failed train_failed notified]:
  fixes nw :: net and t :: "event list"
  obtains
    (fetch_failed) raw diag where
      "fetch_climate_data nw ''New York''
         (t @ [Print [Lit ''Fetching climate data for '', Lit ''New York'', Lit ''...'']]) =
         (Inr raw, t @ prologue @ diag)"
      "list_all is_print diag" "\<not> truthy raw"
      "main nw t =
         (Inr (), t @ prologue @ diag @ [Print [Lit ''Failed to fetch climate data.'']])"
  | (process_failed) raw diag err line where
      "fetch_climate_data nw ''New York''
         (t @ [Print [Lit ''Fetching climate data for '', Lit ''New York'', Lit ''...'']]) =
         (Inr raw, t @ prologue @ diag)"
      "list_all is_print diag" "truthy raw" "process_try raw = Inl err"
      "main nw t = (Inr (), t @ prologue @ diag @
            [Print [Lit ''Processing data...''], Enter ''process_data'', Print line,
             Print [Lit ''Data processing failed.'']])"
  | (train_failed) raw diag dates risk_factors err where
      "fetch_climate_data nw ''New York''
         (t @ [Print [Lit ''Fetching climate data for '', Lit ''New York'', Lit ''...'']]) =
         (Inr raw, t @ prologue @ diag)"
      "list_all is_print diag" "truthy raw" "process_try raw = Inr (dates, risk_factors)"
      "train_try dates risk_factors = Inl err"
      "main nw t = (Inr (), t @ prologue @ diag @
            [Print [Lit ''Processing data...''], Enter ''process_data'',
             Print [Lit ''Training model...''], Enter ''train_model'',
             Print [Lit ''Error during model training: '', Exc err],
             Print [Lit ''Model training failed.'']])"
  | (notified) raw diag dates risk_factors m line where
      "fetch_climate_data nw ''New York''
         (t @ [Print [Lit ''Fetching climate data for '', Lit ''New York'', Lit ''...'']]) =
         (Inr raw, t @ prologue @ diag)"
      "list_all is_print diag" "truthy raw" "process_try raw = Inr (dates, risk_factors)"
      "train_try dates risk_factors = Inr m"
      "main nw t = (Inr (), t @ prologue @ diag @
            [Print [Lit ''Processing data...''], Enter ''process_data'',
             Print [Lit ''Training model...''], Enter ''train_model'',
             Query m (real (length dates)),
             Print [Lit ''Forecasted risk for next date: '',
                    Num (predict m (real (length dates)))],
             Print [Lit ''Sending notification...''], Enter ''send_notification'',
             Http_post NOTIFICATION_ENDPOINT
               [(''message'', alert ''New York'' (predict m (real (length dates))))],
             Print line])"
proof -
  let ?t1 = "t @ [Print [Lit ''Fetching climate data for '', Lit ''New York'', Lit ''...'']]"
  obtain raw diag
    where f: "fetch_climate_data nw ''New York'' ?t1 = (Inr raw, t @ prologue @ diag)"
      and q: "list_all is_print diag"
    using fetch_climate_data_shape [of nw "''New York''" ?t1] by (auto simp add: prologue_def)
  let ?t2 = "t @ prologue @ diag"
  show thesis
  proof (cases "truthy raw")
    case False
    with f have "main nw t = (Inr (), ?t2 @ [Print [Lit ''Failed to fetch climate data.'']])"
      by (simp add: main_def py_print_def Let_def)
    with f q False show thesis using fetch_failed by simp
  next
    case True
    let ?t3 = "?t2 @ [Print [Lit ''Processing data...'']]"
    show thesis
    proof (cases "process_try raw")
      case (Inl err)
      obtain line where "process_data raw ?t3 =
          (Inr (None, None), ?t3 @ [Enter ''process_data'', Print line])"
        using process_data_Inl [OF Inl] by blast
      with f True have "main nw t = (Inr (), ?t2 @
            [Print [Lit ''Processing data...''], Enter ''process_data'', Print line,
             Print [Lit ''Data processing failed.'']])"
        by (simp add: main_def py_print_def Let_def)
      with f q True Inl show thesis using process_failed by simp
    next
      case (Inr p)
      obtain dates risk_factors where p: "p = (dates, risk_factors)" by (cases p)
      have pd: "process_data raw ?t3 =
          (Inr (Some dates, Some risk_factors), ?t3 @ [Enter ''process_data''])"
        using process_data_Inr Inr p by simp
      show thesis
      proof (cases "train_try dates risk_factors")
        case (Inl err)
        from f True pd train_model_Inl [OF Inl]
        have "main nw t = (Inr (), ?t2 @
            [Print [Lit ''Processing data...''], Enter ''process_data'',
             Print [Lit ''Training model...''], Enter ''train_model'',
             Print [Lit ''Error during model training: '', Exc err],
             Print [Lit ''Model training failed.'']])"
          by (simp add: main_def py_print_def Let_def)
        with f q True Inr p Inl show thesis using train_failed by simp
      next
        case m: (Inr m)
        let ?t7 = "?t2 @
            [Print [Lit ''Processing data...''], Enter ''process_data'',
             Print [Lit ''Training model...''], Enter ''train_model'',
             Query m (real (length dates)),
             Print [Lit ''Forecasted risk for next date: '',
                    Num (predict m (real (length dates)))],
             Print [Lit ''Sending notification...'']]"
        obtain line
          where s: "send_notification nw ''New York'' (predict m (real (length dates))) ?t7 =
            (Inr (), ?t7 @ [Enter ''send_notification'',
               Http_post NOTIFICATION_ENDPOINT
                 [(''message'', alert ''New York'' (predict m (real (length dates))))],
               Print line])"
          using send_notification_shape by blast
        from f True pd train_model_Inr [OF m] s
        have "main nw t = (Inr (), ?t7 @ [Enter ''send_notification'',
               Http_post NOTIFICATION_ENDPOINT
                 [(''message'', alert ''New York'' (predict m (real (length dates))))],
               Print line])"
          by (simp add: main_def py_print_def Let_def)
        with f q True Inr p m show thesis
          using notified [of raw diag dates risk_factors m line] by simp
      qed
    qed
  qed
qed

subsection \<open>Runs with a known provider answer\<close>


lemma fetch_climate_data_failed:
  assumes "request_fails (http_get nw API_ENDPOINT [(''location'', location)])"
  shows "\<exists>line. \<forall>t. fetch_climate_data nw location t =
    (Inr JNull, t @ [Enter ''fetch_climate_data'',
       Http_get API_ENDPOINT [(''location'', location)], Print line])"
proof (cases "http_get nw API_ENDPOINT [(''location'', location)]")
  case (Inl e)
  then show ?thesis
    by (cases e) (simp_all add: fetch_climate_data_def fetch_try_def py_print_def)
next
  case (Inr r)
  with assms have "400 \<le> status_code r" "status_code r < 600"
    by (simp_all add: request_fails_def)
  from fetch_climate_data_status [OF Inr this] show ?thesis by blast
qed

lemma main_fetch_failed:
  assumes "fetch_climate_data nw ''New York''
         [Print [Lit ''Fetching climate data for '', Lit ''New York'', Lit ''...'']] =
         (Inr raw, prologue @ diag)"
    and "\<not> truthy raw"
  shows "main nw [] = (Inr (), prologue @ diag @ [Print [Lit ''Failed to fetch climate data.'']])"
  using assms by (simp add: main_def py_print_def Let_def)

lemma main_fetched:
  assumes "http_get nw API_ENDPOINT [(''location'', ''New York'')] = Inr r"
    and "raise_for_status r = Inr ()"
    and "body r = Some raw"
  shows "fetch_climate_data nw ''New York''
         [Print [Lit ''Fetching climate data for '', Lit ''New York'', Lit ''...'']] =
         (Inr raw, prologue)"
  using fetch_climate_data_ok [OF assms] by (simp add: prologue_def)

lemma main_process_failed:
  assumes "http_get nw API_ENDPOINT [(''location'', ''New York'')] = Inr r"
    and "raise_for_status r = Inr ()"
    and "body r = Some raw"
    and "truthy raw"
    and "process_try raw = Inl err"
  shows "\<exists>line. main nw [] = (Inr (), prologue @
            [Print [Lit ''Processing data...''], Enter ''process_data'', Print line,
             Print [Lit ''Data processing failed.'']])"
proof (cases rule: main_cases [of nw "[]"])
  case (fetch_failed raw diag)
  then show ?thesis using main_fetched [OF assms(1-3)] assms by simp
next
  case (process_failed raw diag err line)
  then show ?thesis using main_fetched [OF assms(1-3)] assms by simp
next
  case (train_failed raw diag dates risk_factors err)
  then show ?thesis using main_fetched [OF assms(1-3)] assms by simp
next
  case (notified raw diag dates risk_factors m line)
  then show ?thesis using main_fetched [OF assms(1-3)] assms by simp
qed

lemma main_notified:
  assumes "http_get nw API_ENDPOINT [(''location'', ''New York'')] = Inr r"
    and "raise_for_status r = Inr ()"
    and "body r = Some raw"
    and "truthy raw"
    and "process_try raw = Inr (dates, risk_factors)"
    and "train_try dates risk_factors = Inr m"
  shows "\<exists>line. main nw [] = (Inr (), prologue @
            [Print [Lit ''Processing data...''], Enter ''process_data'',
             Print [Lit ''Training model...''], Enter ''train_model'',
             Query m (real (length dates)),
             Print [Lit ''Forecasted risk for next date: '',
                    Num (predict m (real (length dates)))],
             Print [Lit ''Sending notification...''], Enter ''send_notification'',
             Http_post NOTIFICATION_ENDPOINT
               [(''message'', alert ''New York'' (predict m (real (length dates))))],
             Print line])"
proof (cases rule: main_cases [of nw "[]"])
  case (fetch_failed raw diag)
  then show ?thesis using main_fetched [OF assms(1-3)] assms by simp
next
  case (process_failed raw diag err line)
  then show ?thesis using main_fetched [OF assms(1-3)] assms by simp
next
  case (train_failed raw diag dates risk_factors err)
  then show ?thesis using main_fetched [OF assms(1-3)] assms by simp
next
  case (notified raw diag dates risk_factors m line)
  then show ?thesis using main_fetched [OF assms(1-3)] assms by simp
qed

section \<open>The happy path of property P1\<close>

lemma arange_3: "arange 3 = [0, 1, 2]"
  by (simp add: arange_def upt_rec)

lemma fit_p1: "fit [0, 1, 2] [1, 2, 3] = Inr \<lparr>coef = 1, intercept = 1\<rparr>"
  by (simp add: fit_def mean_def Let_def)

lemma process_try_p1: "process_try p1_response = Inr (p1_dates, [JNum 1, JNum 2, JNum 3])"
  by (simp add: process_try_def p1_response_def p1_records_def p1_dates_def np_array_def)

lemma length_p1_dates: "length p1_dates = 3"
  by (simp add: p1_dates_def)

lemma train_try_p1:
  "train_try p1_dates [JNum 1, JNum 2, JNum 3] = Inr \<lparr>coef = 1, intercept = 1\<rparr>"
  by (simp add: train_try_def length_p1_dates arange_3 fit_p1)

lemma predict_p1: "predict \<lparr>coef = 1, intercept = 1\<rparr> 3 = 4"
  by (simp add: predict_def)

lemma p1_truthy: "truthy p1_response"
  by (simp add: p1_response_def p1_records_def)

lemma main_p1:
  "\<exists>line. main (answering (Inr (ok p1_response)) p) [] =
     (Inr (), prologue @
        [Print [Lit ''Processing data...''], Enter ''process_data'',
         Print [Lit ''Training model...''], Enter ''train_model'',
         Query \<lparr>coef = 1, intercept = 1\<rparr> 3,
         Print [Lit ''Forecasted risk for next date: '', Num 4],
         Print [Lit ''Sending notification...''], Enter ''send_notification'',
         Http_post NOTIFICATION_ENDPOINT [(''message'', alert ''New York'' 4)],
         Print line])"
proof -
  let ?nw = "answering (Inr (ok p1_response)) p"
  let ?t1 = "[Print [Lit ''Fetching climate data for '', Lit ''New York'', Lit ''...'']]"
  have g: "http_get ?nw API_ENDPOINT [(''location'', ''New York'')] = Inr (ok p1_response)"
    by (simp add: answering_def)
  have f: "fetch_climate_data ?nw ''New York'' ?t1 =
      (Inr p1_response, ?t1 @ [Enter ''fetch_climate_data'',
         Http_get API_ENDPOINT [(''location'', ''New York'')]])"
    by (rule fetch_climate_data_ok [OF g]) (simp_all add: ok_def raise_for_status_def)
  show ?thesis
  proof (cases rule: main_cases [of ?nw "[]"])
    case (fetch_failed raw diag)
    then show ?thesis using f p1_truthy by simp
  next
    case (process_failed raw diag err line)
    then show ?thesis using f process_try_p1 by simp
  next
    case (train_failed raw diag dates risk_factors err)
    then show ?thesis using f process_try_p1 train_try_p1 by simp
  next
    case (notified raw diag dates risk_factors m line)
    then show ?thesis using f process_try_p1 train_try_p1 predict_p1 length_p1_dates
      by (auto simp add: prologue_def)
  qed
qed

text \<open>
  Claim C1. For the provider response of P1, processing yields the three dates and the
  risk values 1, 2, 3; the positions are 0, 1, 2; the least-squares fit over them has
  slope 1 and intercept 1; the fitted model predicts 4 at position 3; and a run of
  \<open>main\<close> against a provider giving this response queries the model with slope 1 and
  intercept 1 at position 3, prints the forecast 4 and posts the alert for 4, whatever the
  notification provider answers.
\<close>

theorem p1_happy_path:
  "process_try p1_response = Inr (p1_dates, [JNum 1, JNum 2, JNum 3])
   \<and> arange (length p1_dates) = [0, 1, 2]
   \<and> as_floats [JNum 1, JNum 2, JNum 3] = Inr [1, 2, 3]
   \<and> fit [0, 1, 2] [1, 2, 3] = Inr \<lparr>coef = 1, intercept = 1\<rparr>
   \<and> train_try p1_dates [JNum 1, JNum 2, JNum 3] = Inr \<lparr>coef = 1, intercept = 1\<rparr>
   \<and> predict \<lparr>coef = 1, intercept = 1\<rparr> 3 = 4
   \<and> (\<exists>line. main (answering (Inr (ok p1_response)) p) [] =
         (Inr (), prologue @
            [Print [Lit ''Processing data...''], Enter ''process_data'',
             Print [Lit ''Training model...''], Enter ''train_model'',
             Query \<lparr>coef = 1, intercept = 1\<rparr> 3,
             Print [Lit ''Forecasted risk for next date: '', Num 4],
             Print [Lit ''Sending notification...''], Enter ''send_notification'',
             Http_post NOTIFICATION_ENDPOINT [(''message'', alert ''New York'' 4)],
             Print line]))"
  using process_try_p1 arange_3 fit_p1 train_try_p1 predict_p1 main_p1 [of p]
  by (simp add: length_p1_dates)

section \<open>Fitting does not depend on the surroundings\<close>


section \<open>The result of processing\<close>

text \<open>
  Claim C9. For every input, \<open>process_data\<close> returns either two sequences of equal length
  or the pair \<open>(None, None)\<close>: no exception leaves it, exactly one \<open>None\<close> never occurs,
  and two sequences of different lengths never occur.
\<close>

theorem process_data_sentinel_or_aligned:
  "(case fst (process_data raw t) of
      Inl e \<Rightarrow> False
    | Inr (None, None) \<Rightarrow> True
    | Inr (Some dates, Some risk_factors) \<Rightarrow> length dates = length risk_factors
    | Inr other \<Rightarrow> False)"
proof (cases "process_try raw")
  case (Inl e)
  then show ?thesis using process_data_Inl [OF Inl, of t] by auto
next
  case (Inr p)
  obtain d r where p: "p = (d, r)" by (cases p)
  from Inr p obtain es where "collect es [] [] = Inr (d, r)"
    using process_try_iter by blast
  from collect_lengths [OF this] have "length d = length r" by simp
  with Inr p show ?thesis using process_data_Inr [of raw d r t] by simp
qed




section \<open>Aborted runs\<close>

text \<open>
  Claim C3. If some record of the input sequence is a dict without \<open>risk_factor\<close>,
  \<open>process_data\<close> returns \<open>(None, None)\<close>; and a run of \<open>main\<close> whose provider answered
  with that sequence prints the processing diagnostic and \<open>Data processing failed.\<close>,
  ends normally, never enters \<open>train_model\<close> or \<open>send_notification\<close> and issues no POST.
\<close>

theorem missing_risk_factor_aborts:
  assumes "JObj kvs \<in> set entries" and "map_of kvs ''risk_factor'' = None"
  shows "fst (process_data (JArr entries) t) = Inr (None, None)
    \<and> (http_get nw API_ENDPOINT [(''location'', ''New York'')] = Inr r
         \<and> raise_for_status r = Inr () \<and> body r = Some (JArr entries)
       \<longrightarrow> (\<exists>line. main nw [] = (Inr (), prologue @
                 [Print [Lit ''Processing data...''], Enter ''process_data'', Print line,
                  Print [Lit ''Data processing failed.'']]))
           \<and> Enter ''train_model'' \<notin> set (snd (main nw []))
           \<and> Enter ''send_notification'' \<notin> set (snd (main nw []))
           \<and> filter is_post (snd (main nw [])) = [])"
proof -
  have "getitem (JObj kvs) ''risk_factor'' = Inl (KeyError ''risk_factor'')"
    using assms(2) by simp
  from collect_missing [OF assms(1) this]
  obtain err where c: "collect entries [] [] = Inl err" by blast
  then have p: "process_try (JArr entries) = Inl err"
    by (simp add: process_try_def)
  have a: "fst (process_data (JArr entries) t) = Inr (None, None)"
    using process_data_Inl [OF p, of t] by auto
  have tr: "truthy (JArr entries)" using assms(1) by auto
  have b: "(\<exists>line. main nw [] = (Inr (), prologue @
                 [Print [Lit ''Processing data...''], Enter ''process_data'', Print line,
                  Print [Lit ''Data processing failed.'']]))
           \<and> Enter ''train_model'' \<notin> set (snd (main nw []))
           \<and> Enter ''send_notification'' \<notin> set (snd (main nw []))
           \<and> filter is_post (snd (main nw [])) = []"
    if "http_get nw API_ENDPOINT [(''location'', ''New York'')] = Inr r"
      and "raise_for_status r = Inr ()" and "body r = Some (JArr entries)"
  proof -
    from main_process_failed [OF that tr p] obtain line
      where m: "main nw [] = (Inr (), prologue @
                 [Print [Lit ''Processing data...''], Enter ''process_data'', Print line,
                  Print [Lit ''Data processing failed.'']])" by blast
    then show ?thesis by (auto simp add: prologue_def)
  qed
  from a b show ?thesis by blast
qed

text \<open>Claim C3 at two records, the second without \<open>risk_factor\<close>.\<close>

theorem missing_risk_factor_aborts_witness:
  "JObj [(''date'', JStr ''2024-01-02'')] \<in> set
      [JObj [(''date'', JStr ''2024-01-01''), (''risk_factor'', JNum 1)],
       JObj [(''date'', JStr ''2024-01-02'')]]
   \<and> map_of [(''date'', JStr ''2024-01-02'')] ''risk_factor'' = None
   \<and> http_get (answering (Inr (ok (JArr
           [JObj [(''date'', JStr ''2024-01-01''), (''risk_factor'', JNum 1)],
            JObj [(''date'', JStr ''2024-01-02'')]]))) (Inr (ok JNull)))
         API_ENDPOINT [(''location'', ''New York'')]
       = Inr (ok (JArr
           [JObj [(''date'', JStr ''2024-01-01''), (''risk_factor'', JNum 1)],
            JObj [(''date'', JStr ''2024-01-02'')]]))
   \<and> raise_for_status (ok (JArr
           [JObj [(''date'', JStr ''2024-01-01''), (''risk_factor'', JNum 1)],
            JObj [(''date'', JStr ''2024-01-02'')]])) = Inr ()
   \<and> body (ok (JArr
           [JObj [(''date'', JStr ''2024-01-01''), (''risk_factor'', JNum 1)],
            JObj [(''date'', JStr ''2024-01-02'')]]))
       = Some (JArr
           [JObj [(''date'', JStr ''2024-01-01''), (''risk_factor'', JNum 1)],
            JObj [(''date'', JStr ''2024-01-02'')]])
   \<and> fst (process_data (JArr
           [JObj [(''date'', JStr ''2024-01-01''), (''risk_factor'', JNum 1)],
            JObj [(''date'', JStr ''2024-01-02'')]]) []) = Inr (None, None)
   \<and> Enter ''train_model'' \<notin> set (snd (main (answering (Inr (ok (JArr
           [JObj [(''date'', JStr ''2024-01-01''), (''risk_factor'', JNum 1)],
            JObj [(''date'', JStr ''2024-01-02'')]]))) (Inr (ok JNull))) []))
   \<and> filter is_post (snd (main (answering (Inr (ok (JArr
           [JObj [(''date'', JStr ''2024-01-01''), (''risk_factor'', JNum 1)],
            JObj [(''date'', JStr ''2024-01-02'')]]))) (Inr (ok JNull))) [])) = []"
proof -
  let ?kvs = "[(''date'', JStr ''2024-01-02'')]"
  let ?es = "[JObj [(''date'', JStr ''2024-01-01''), (''risk_factor'', JNum 1)], JObj ?kvs]"
  let ?r = "ok (JArr ?es)"
  let ?nw = "answering (Inr ?r) (Inr (ok JNull))"
  have h1: "JObj ?kvs \<in> set ?es" by simp
  have h2: "map_of ?kvs ''risk_factor'' = None" by simp
  have h3: "http_get ?nw API_ENDPOINT [(''location'', ''New York'')] = Inr ?r"
    by (simp add: answering_def)
  have h4: "raise_for_status ?r = Inr ()" by (simp add: raise_for_status_def ok_def)
  have h5: "body ?r = Some (JArr ?es)" by (simp add: ok_def)
  note c = missing_risk_factor_aborts [OF h1 h2, of "[]" ?nw ?r]
  from h1 h2 h3 h4 h5 c show ?thesis by blast
qed

text \<open>
  Claim C4, as the code has it. If the GET raises (a transport error) or is answered
  with a status from 400 to 599, the statuses \<open>raise_for_status\<close> rejects, then
  \<open>fetch_climate_data\<close> returns \<open>None\<close> after its single GET and one diagnostic line, and
  \<open>main\<close> prints \<open>Failed to fetch climate data.\<close> and ends normally with exactly one GET,
  without entering \<open>process_data\<close>, \<open>train_model\<close> or \<open>send_notification\<close> and without a
  POST.
\<close>

theorem failed_fetch_aborts:
  assumes "request_fails (http_get nw API_ENDPOINT [(''location'', ''New York'')])"
  shows "\<exists>line.
       fetch_climate_data nw ''New York'' t =
         (Inr JNull, t @ [Enter ''fetch_climate_data'',
            Http_get API_ENDPOINT [(''location'', ''New York'')], Print line])
     \<and> main nw [] =
         (Inr (), prologue @ [Print line, Print [Lit ''Failed to fetch climate data.'']])
     \<and> filter is_get (snd (main nw [])) = [Http_get API_ENDPOINT [(''location'', ''New York'')]]
     \<and> Enter ''process_data'' \<notin> set (snd (main nw []))
     \<and> Enter ''train_model'' \<notin> set (snd (main nw []))
     \<and> Enter ''send_notification'' \<notin> set (snd (main nw []))
     \<and> filter is_post (snd (main nw [])) = []"
proof -
  obtain line where f: "\<And>t. fetch_climate_data nw ''New York'' t =
    (Inr JNull, t @ [Enter ''fetch_climate_data'',
       Http_get API_ENDPOINT [(''location'', ''New York'')], Print line])"
    using fetch_climate_data_failed [OF assms] by blast
  have f1: "fetch_climate_data nw ''New York''
         [Print [Lit ''Fetching climate data for '', Lit ''New York'', Lit ''...'']] =
         (Inr JNull, prologue @ [Print line])"
    by (simp add: f prologue_def)
  have m: "main nw [] =
      (Inr (), prologue @ [Print line, Print [Lit ''Failed to fetch climate data.'']])"
    using main_fetch_failed [OF f1] by simp
  have "filter is_get (snd (main nw [])) = [Http_get API_ENDPOINT [(''location'', ''New York'')]]"
    and "Enter ''process_data'' \<notin> set (snd (main nw []))"
    and "Enter ''train_model'' \<notin> set (snd (main nw []))"
    and "Enter ''send_notification'' \<notin> set (snd (main nw []))"
    and "filter is_post (snd (main nw [])) = []"
    by (simp_all add: m prologue_def)
  with f [of t] m show ?thesis by blast
qed

text \<open>Claim C4 as amended, at a refused connection and at a 503 answer.\<close>

theorem failed_fetch_aborts_witness:
  "request_fails
     (http_get (answering (Inl (ConnectionError ''connection refused'')) (Inr (ok JNull)))
        API_ENDPOINT [(''location'', ''New York'')])
   \<and> (\<exists>line. main (answering (Inl (ConnectionError ''connection refused'')) (Inr (ok JNull))) [] =
         (Inr (), prologue @ [Print line, Print [Lit ''Failed to fetch climate data.'']]))
   \<and> request_fails
       (http_get (answering (Inr \<lparr>status_code = 503, reason = ''Service Unavailable'', body = None\<rparr>)
                   (Inr (ok JNull)))
          API_ENDPOINT [(''location'', ''New York'')])
   \<and> (\<exists>line. main (answering (Inr \<lparr>status_code = 503, reason = ''Service Unavailable'', body = None\<rparr>)
                (Inr (ok JNull))) [] =
         (Inr (), prologue @ [Print line, Print [Lit ''Failed to fetch climate data.'']]))"
proof -
  let ?nw1 = "answering (Inl (ConnectionError ''connection refused'')) (Inr (ok JNull))"
  let ?nw2 = "answering (Inr \<lparr>status_code = 503, reason = ''Service Unavailable'', body = None\<rparr>)
                (Inr (ok JNull))"
  have h1: "request_fails (http_get ?nw1 API_ENDPOINT [(''location'', ''New York'')])"
    by (simp add: answering_def request_fails_def)
  have h2: "request_fails (http_get ?nw2 API_ENDPOINT [(''location'', ''New York'')])"
    by (simp add: answering_def request_fails_def)
  note c1 = failed_fetch_aborts [OF h1, of "[]"]
  note c2 = failed_fetch_aborts [OF h2, of "[]"]
  from h1 h2 c1 c2 show ?thesis by blast
qed

text \<open>
  Claim C4 as stated fails: 300 is not a 2xx status, yet a 300 answer that carries the
  records of P1 is returned by \<open>fetch_climate_data\<close> as data, and the run goes on through
  \<open>process_data\<close>, \<open>train_model\<close> and \<open>send_notification\<close> to the POST.
\<close>

theorem non_2xx_response_is_processed_counterexample:
  "\<not> (200 \<le> status_code (multiple_choices p1_response)
        \<and> status_code (multiple_choices p1_response) < 300)
   \<and> fst (fetch_climate_data
             (answering (Inr (multiple_choices p1_response)) (Inr (ok JNull))) ''New York'' [])
       = Inr p1_response
   \<and> p1_response \<noteq> JNull
   \<and> Enter ''process_data'' \<in>
       set (snd (main (answering (Inr (multiple_choices p1_response)) (Inr (ok JNull))) []))
   \<and> Enter ''train_model'' \<in>
       set (snd (main (answering (Inr (multiple_choices p1_response)) (Inr (ok JNull))) []))
   \<and> Enter ''send_notification'' \<in>
       set (snd (main (answering (Inr (multiple_choices p1_response)) (Inr (ok JNull))) []))
   \<and> filter is_post
        (snd (main (answering (Inr (multiple_choices p1_response)) (Inr (ok JNull))) []))
       = [Http_post NOTIFICATION_ENDPOINT [(''message'', alert ''New York'' 4)]]"
proof -
  let ?r = "multiple_choices p1_response"
  let ?nw = "answering (Inr ?r) (Inr (ok JNull))"
  have g: "http_get ?nw API_ENDPOINT [(''location'', ''New York'')] = Inr ?r"
    by (simp add: answering_def)
  have s: "raise_for_status ?r = Inr ()"
    by (simp add: raise_for_status_def multiple_choices_def)
  have b: "body ?r = Some p1_response" by (simp add: multiple_choices_def)
  from main_notified [OF g s b p1_truthy process_try_p1 train_try_p1]
  obtain line where m: "main ?nw [] = (Inr (), prologue @
            [Print [Lit ''Processing data...''], Enter ''process_data'',
             Print [Lit ''Training model...''], Enter ''train_model'',
             Query \<lparr>coef = 1, intercept = 1\<rparr> (real (length p1_dates)),
             Print [Lit ''Forecasted risk for next date: '',
                    Num (predict \<lparr>coef = 1, intercept = 1\<rparr> (real (length p1_dates)))],
             Print [Lit ''Sending notification...''], Enter ''send_notification'',
             Http_post NOTIFICATION_ENDPOINT
               [(''message'', alert ''New York''
                  (predict \<lparr>coef = 1, intercept = 1\<rparr> (real (length p1_dates))))],
             Print line])" by blast
  have "p1_response \<noteq> JNull" by (simp add: p1_response_def)
  moreover have "\<not> (200 \<le> status_code ?r \<and> status_code ?r < 300)"
    by (simp add: multiple_choices_def)
  moreover have "fst (fetch_climate_data ?nw ''New York'' []) = Inr p1_response"
    using fetch_climate_data_ok [OF g s b, of "[]"] by simp
  ultimately show ?thesis
    by (simp add: m prologue_def length_p1_dates predict_p1)
qed

text \<open>
  Claim C10. If the provider answers with a 2xx status and an empty JSON array,
  \<open>fetch_climate_data\<close> returns that array, which is not \<open>None\<close>; the truth test of
  \<open>main\<close> still takes the failure branch: the run prints \<open>Failed to fetch climate data.\<close>
  right after the GET and ends without entering \<open>process_data\<close>, \<open>train_model\<close> or
  \<open>send_notification\<close> and without a POST.
\<close>

theorem empty_response_counts_as_fetch_failure:
  assumes "http_get nw API_ENDPOINT [(''location'', ''New York'')] = Inr r"
    and "200 \<le> status_code r" and "status_code r < 300"
    and "body r = Some (JArr [])"
  shows "fst (fetch_climate_data nw ''New York'' t) = Inr (JArr [])
     \<and> JArr [] \<noteq> JNull
     \<and> main nw [] = (Inr (), prologue @ [Print [Lit ''Failed to fetch climate data.'']])
     \<and> Enter ''process_data'' \<notin> set (snd (main nw []))
     \<and> Enter ''train_model'' \<notin> set (snd (main nw []))
     \<and> Enter ''send_notification'' \<notin> set (snd (main nw []))
     \<and> filter is_post (snd (main nw [])) = []"
proof -
  have s: "raise_for_status r = Inr ()"
    using assms(2,3) by (simp add: raise_for_status_def)
  have "main nw [] = (Inr (), prologue @ [] @ [Print [Lit ''Failed to fetch climate data.'']])"
    using main_fetch_failed [of nw "JArr []" "[]"] main_fetched [OF assms(1) s assms(4)]
    by simp
  then show ?thesis
    using fetch_climate_data_ok [OF assms(1) s assms(4), of t] by (simp add: prologue_def)
qed

text \<open>Claim C10 at a 200 answer with body \<open>[]\<close>.\<close>

theorem empty_response_counts_as_fetch_failure_witness:
  "http_get (answering (Inr (ok (JArr []))) (Inr (ok JNull)))
       API_ENDPOINT [(''location'', ''New York'')] = Inr (ok (JArr []))
   \<and> 200 \<le> status_code (ok (JArr [])) \<and> status_code (ok (JArr [])) < 300
   \<and> body (ok (JArr [])) = Some (JArr [])
   \<and> main (answering (Inr (ok (JArr []))) (Inr (ok JNull))) [] =
        (Inr (), prologue @ [Print [Lit ''Failed to fetch climate data.'']])"
proof -
  let ?nw = "answering (Inr (ok (JArr []))) (Inr (ok JNull))"
  have h1: "http_get ?nw API_ENDPOINT [(''location'', ''New York'')] = Inr (ok (JArr []))"
    by (simp add: answering_def)
  have h2: "200 \<le> status_code (ok (JArr []))" by (simp add: ok_def)
  have h3: "status_code (ok (JArr [])) < 300" by (simp add: ok_def)
  have h4: "body (ok (JArr [])) = Some (JArr [])" by (simp add: ok_def)
  note c = empty_response_counts_as_fetch_failure [OF h1 h2 h3 h4, of "[]"]
  from h1 h2 h3 h4 c show ?thesis by blast
qed

section \<open>The notification stage\<close>


section \<open>The forecast step\<close>





section \<open>Dates do not reach the model\<close>









text \<open>Array-valued dates of unequal lengths are refused by \<open>np.array\<close>, and processing
  ends with the sentinel although every record carries both fields.\<close>

lemma ragged_dates_abort: "fst (process_data (JArr ragged_records) t) = Inr (None, None)"
  by (simp add: process_data_def process_try_def np_array_def ragged_records_def py_print_def)



end
